theory Spec2Isabelle
  imports Main
begin

section \<open>The middleware module of the framework core\<close>

text \<open>
  A shallow embedding of \<^verbatim>\<open>packages/core/middleware/middleware-module.ts\<close>, the class
  \<^verbatim>\<open>MiddlewareModule\<close>. Its methods are \<^verbatim>\<open>async\<close> functions that fan out with
  \<^verbatim>\<open>Promise.all\<close>; the embedding makes three things explicit:
  \<^item> every effect on a collaborator (the builder, the exception filter factory, the router
    method factory, the router itself) is an \<open>event\<close> of a trace, in program order;
  \<^item> a thrown error is a rejected \<open>outcome\<close> of the surrounding \<^verbatim>\<open>async\<close> function;
  \<^item> an \<^verbatim>\<open>await\<close> of a user promise is an event of the trace followed by the continuation
    that the fate of the promise allows.
\<close>

subsection \<open>Values, errors and promises\<close>

type_synonym module_key = string
type_synonym type_name = string
type_synonym route_path = string
type_synonym application_ref = nat

text \<open>
  \<^verbatim>\<open>InvalidMiddlewareException(name)\<close> and \<^verbatim>\<open>RuntimeException()\<close> are the two errors the file
  constructs; \<open>UserError\<close> stands for any other thrown value (an error of a user hook, a
  \<^verbatim>\<open>TypeError\<close> of the runtime).
\<close>

datatype error =
    InvalidMiddlewareException type_name
  | RuntimeException
  | UserError nat

text \<open>
  A value for which \<^verbatim>\<open>v instanceof Promise\<close> is false: a function, an object with a
  \<^verbatim>\<open>then\<close> member that is not a native promise, or anything else.
\<close>

datatype plain = Fn nat | Thenable nat | Other nat

text \<open>How a native promise settles: with a value, with an error, or never.\<close>

datatype 'a fate = Settles 'a | Fails error | Never

datatype jsvalue = Plain plain | NativePromise "plain fate"

fun instanceof_Promise :: "jsvalue \<Rightarrow> bool" where
  "instanceof_Promise (NativePromise f) = True"
| "instanceof_Promise (Plain v) = False"

text \<open>
  The promise an \<^verbatim>\<open>async\<close> function returns. \<open>RejectedSync e\<close>: the body threw \<open>e\<close> before
  its first \<^verbatim>\<open>await\<close>, so the promise is rejected when the call returns. \<open>RejectedAsync es\<close>:
  the promise rejects after a suspension, with one of the errors \<open>es\<close> (which one is decided
  by the order in which concurrent branches settle, which the embedding leaves open).
  \<open>Pending\<close>: the promise never settles.
\<close>

datatype outcome = Fulfilled | RejectedSync error | RejectedAsync "error list" | Pending

fun candidates :: "outcome \<Rightarrow> error list" where
  "candidates (RejectedSync e) = [e]"
| "candidates (RejectedAsync es) = es"
| "candidates Fulfilled = []"
| "candidates Pending = []"

text \<open>
  \<^verbatim>\<open>await p\<close> as the last statement of an \<^verbatim>\<open>async\<close> function: the function's own promise
  follows \<open>p\<close>, after a suspension.
\<close>

fun awaited :: "outcome \<Rightarrow> outcome" where
  "awaited Fulfilled = Fulfilled"
| "awaited (RejectedSync e) = RejectedAsync [e]"
| "awaited (RejectedAsync es) = RejectedAsync es"
| "awaited Pending = Pending"

fun sync_errors :: "outcome list \<Rightarrow> error list" where
  "sync_errors [] = []"
| "sync_errors (RejectedSync e # bs) = e # sync_errors bs"
| "sync_errors (b # bs) = sync_errors bs"

fun async_errors :: "outcome list \<Rightarrow> error list" where
  "async_errors [] = []"
| "async_errors (RejectedAsync es # bs) = es @ async_errors bs"
| "async_errors (b # bs) = async_errors bs"

fun is_RejectedAsync :: "outcome \<Rightarrow> bool" where
  "is_RejectedAsync (RejectedAsync es) = True"
| "is_RejectedAsync b = False"

text \<open>
  \<^verbatim>\<open>Promise.all(branches)\<close>, called in the same synchronous run that created the branches.
  A branch that is already rejected has its reaction queued first, in list order, so the
  first such branch decides the result. Otherwise the result rejects with the error of
  whichever branch rejects first, is pending while some branch never settles, and is
  fulfilled when every branch is.
\<close>

definition promise_all :: "outcome list \<Rightarrow> outcome" where
  "promise_all bs =
     (case sync_errors bs of
        e # _ \<Rightarrow> RejectedAsync [e]
      | [] \<Rightarrow>
          if list_ex is_RejectedAsync bs then RejectedAsync (async_errors bs)
          else if Pending \<in> set bs then Pending
          else Fulfilled)"

subsection \<open>Modules, configurations and the middleware container\<close>

record metatype =
  mt_name :: type_name

datatype call_result = Returns jsvalue | Throws error

text \<open>
  A middleware instance: its identity and its \<^verbatim>\<open>resolve\<close> member, \<open>None\<close> when the member
  is undefined, otherwise what calling it does.
\<close>

record nest_middleware =
  mw_id :: nat
  mw_resolve :: "call_result option"

record middleware_wrapper =
  w_instance :: nest_middleware
  w_metatype :: metatype

text \<open>The \<^verbatim>\<open>middleware\<close> field of a configuration is a single type or an array of types.\<close>

datatype middleware_field = Single metatype | Many "metatype list"

record middleware_configuration =
  middleware :: middleware_field
  forRoutes :: "route_path list"

text \<open>
  Modelled from the spec: \<^verbatim>\<open>MiddlewareBuilder\<close> (\<^verbatim>\<open>./builder\<close>), of which the file uses the
  constructor and \<^verbatim>\<open>build()\<close>. The builder accumulates the configurations that the hook
  applies, and \<^verbatim>\<open>build()\<close> yields the ordered list.
\<close>

record middleware_builder =
  mb_collection :: "middleware_configuration list"

definition new_MiddlewareBuilder :: middleware_builder where
  "new_MiddlewareBuilder = \<lparr>mb_collection = []\<rparr>"

definition build :: "middleware_builder \<Rightarrow> middleware_configuration list" where
  "build b = mb_collection b"

text \<open>
  What a \<^verbatim>\<open>configure\<close> hook hands back to its caller: the builder it was given, nothing,
  some other value, or (an \<^verbatim>\<open>async\<close> hook) a promise.
\<close>

datatype hook_value = RetBuilder | RetUndefined | RetForeign nat | RetAwaitable "unit fate"

text \<open>
  A hook is called with the builder object and mutates it in place: \<open>HookReturns b v\<close> is the
  builder as the hook left it when it returned \<open>v\<close>.
\<close>

datatype hook_result = HookThrows error | HookReturns middleware_builder hook_value

record nest_module =
  configure :: "(middleware_builder \<Rightarrow> hook_result) option"


text \<open>
  Modelled from the spec: \<^verbatim>\<open>MiddlewareContainer\<close> (\<^verbatim>\<open>./container\<close>). Per module, a map
  from type name to wrapper, and the list of configurations; \<^verbatim>\<open>addConfig\<close> appends and never
  deduplicates, \<^verbatim>\<open>getMiddleware\<close> returns the module's map (empty when the module has none),
  \<^verbatim>\<open>getConfigs\<close> returns the entries in insertion order.
\<close>

record middleware_container =
  mc_middleware :: "module_key \<Rightarrow> (type_name \<rightharpoonup> middleware_wrapper)"
  mc_configs :: "(module_key \<times> middleware_configuration list) list"

fun append_configs ::
  "middleware_configuration list \<Rightarrow> module_key \<Rightarrow>
   (module_key \<times> middleware_configuration list) list \<Rightarrow>
   (module_key \<times> middleware_configuration list) list" where
  "append_configs cfg k [] = [(k, cfg)]"
| "append_configs cfg k ((k', cs) # rest) =
     (if k' = k then (k', cs @ cfg) # rest else (k', cs) # append_configs cfg k rest)"

definition addConfig ::
  "middleware_configuration list \<Rightarrow> module_key \<Rightarrow> middleware_container \<Rightarrow> middleware_container" where
  "addConfig cfg k c = c\<lparr>mc_configs := append_configs cfg k (mc_configs c)\<rparr>"

definition getConfigs ::
  "middleware_container \<Rightarrow> (module_key \<times> middleware_configuration list) list" where
  "getConfigs c = mc_configs c"

definition getMiddleware ::
  "middleware_container \<Rightarrow> module_key \<Rightarrow> (type_name \<rightharpoonup> middleware_wrapper)" where
  "getMiddleware c k = mc_middleware c k"

subsection \<open>Events\<close>

text \<open>
  The enum \<^verbatim>\<open>RequestMethod\<close> (\<^verbatim>\<open>@nestjs/common/enums/request-method.enum\<close>); the
  constructors carry the enum's name as a prefix.
\<close>

datatype request_method =
    RequestMethod_GET | RequestMethod_POST | RequestMethod_PUT | RequestMethod_DELETE
  | RequestMethod_PATCH | RequestMethod_ALL | RequestMethod_OPTIONS | RequestMethod_HEAD

text \<open>
  Modelled from the spec: \<^verbatim>\<open>RouterExceptionFilters.create\<close> (\<^verbatim>\<open>../router/router-exception-filters\<close>)
  builds, per binding, the exception handler of a middleware instance.
\<close>

datatype exceptions_handler = ExceptionsHandler nat

definition create :: "nest_middleware \<Rightarrow> exceptions_handler" where
  "create inst = ExceptionsHandler (mw_id inst)"

text \<open>
  Modelled from the spec: \<^verbatim>\<open>RouterProxy.createProxy\<close> (\<^verbatim>\<open>../router/router-proxy\<close>) pairs
  a target handler with an exception handler.
\<close>

record proxy =
  p_target :: jsvalue
  p_handler :: exceptions_handler

definition createProxy :: "jsvalue \<Rightarrow> exceptions_handler \<Rightarrow> proxy" where
  "createProxy targetCallback exceptionsHandler =
     \<lparr>p_target = targetCallback, p_handler = exceptionsHandler\<rparr>"

text \<open>
  Modelled from the spec: \<^verbatim>\<open>RouterMethodFactory.get\<close> (\<^verbatim>\<open>../helpers/router-method-factory\<close>)
  maps a request method to the router's registration function for that method, which the
  file binds to the application reference.
\<close>

record router_fn =
  r_app :: application_ref
  r_method :: request_method

definition routerMethodFactory_get :: "application_ref \<Rightarrow> request_method \<Rightarrow> router_fn" where
  "routerMethodFactory_get applicationRef method = \<lparr>r_app = applicationRef, r_method = method\<rparr>"

datatype event =
    NewBuilder
  | CallConfigure module_key
  | AddConfig module_key
  | CreateExceptionsHandler nat
  | GetRouterMethod application_ref request_method
  | CallResolve nat
  | Await "plain fate"
  | RouterRegister router_fn route_path proxy
  | InvokeTarget jsvalue
  | Handle exceptions_handler error

fun is_registration :: "event \<Rightarrow> bool" where
  "is_registration (RouterRegister r p x) = True"
| "is_registration e = False"

definition registrations :: "event list \<Rightarrow> event list" where
  "registrations evs = filter is_registration evs"

subsection \<open>Loading a module's configuration\<close>

text \<open>
  \<^verbatim>\<open>instanceof MiddlewareBuilder\<close>, on the two kinds of value the file applies it to or
  could apply it to: a builder object, and what a hook returned (the builder it was given
  is the only builder a hook value denotes here).
\<close>

datatype builder_operand = LocalBuilder middleware_builder | Returned hook_value

fun instanceof_MiddlewareBuilder :: "builder_operand \<Rightarrow> bool" where
  "instanceof_MiddlewareBuilder (LocalBuilder b) = True"
| "instanceof_MiddlewareBuilder (Returned RetBuilder) = True"
| "instanceof_MiddlewareBuilder (Returned v) = False"

text \<open>
  \<^verbatim>\<open>loadConfiguration(middlewareContainer, instance, module)\<close>. The call
  \<^verbatim>\<open>instance.configure(middlewareBuilder)\<close> is an expression statement: what the hook returns
  is dropped, and the \<^verbatim>\<open>instanceof\<close> test that follows is on the constant
  \<^verbatim>\<open>middlewareBuilder\<close>, the object constructed two lines above.
\<close>

definition loadConfiguration ::
  "middleware_container \<Rightarrow> nest_module \<Rightarrow> module_key \<Rightarrow>
   event list \<times> (error + middleware_container)" where
  "loadConfiguration middlewareContainer instance module =
     (case configure instance of
        None \<Rightarrow> ([], Inr middlewareContainer)
      | Some hook \<Rightarrow>
          (case hook new_MiddlewareBuilder of
             HookThrows e \<Rightarrow> ([NewBuilder, CallConfigure module], Inl e)
           | HookReturns middlewareBuilder v \<Rightarrow>
               if \<not> instanceof_MiddlewareBuilder (LocalBuilder middlewareBuilder)
               then ([NewBuilder, CallConfigure module], Inr middlewareContainer)
               else ([NewBuilder, CallConfigure module, AddConfig module],
                     Inr (addConfig (build middlewareBuilder) module middlewareContainer))))"

subsection \<open>Resolution: \<^verbatim>\<open>resolveMiddleware\<close> and \<^verbatim>\<open>register\<close>\<close>






subsection \<open>Binding: \<^verbatim>\<open>bindHandler\<close> and \<^verbatim>\<open>bindHandlerWithProxy\<close>\<close>

definition bindHandlerWithProxy ::
  "exceptions_handler \<Rightarrow> router_fn \<Rightarrow> jsvalue \<Rightarrow> route_path \<Rightarrow> event list" where
  "bindHandlerWithProxy exceptionsHandler router mw path =
     (let proxy = createProxy mw exceptionsHandler
      in [RouterRegister router path proxy])"

text \<open>
  \<^verbatim>\<open>bindHandler(instance, metatype, applicationRef, method, path)\<close>: the trace of the call and
  the outcome of the promise it returns.
\<close>

definition bindHandler ::
  "nest_middleware \<Rightarrow> metatype \<Rightarrow> application_ref \<Rightarrow> request_method \<Rightarrow> route_path \<Rightarrow>
   event list \<times> outcome" where
  "bindHandler instance metatype applicationRef method path =
     (case mw_resolve instance of
        None \<Rightarrow> ([], RejectedSync (InvalidMiddlewareException (mt_name metatype)))
      | Some call \<Rightarrow>
          (let exceptionsHandler = create instance;
               router = routerMethodFactory_get applicationRef method;
               bindWithProxy = (\<lambda>obj. bindHandlerWithProxy exceptionsHandler router obj path);
               pre = [CreateExceptionsHandler (mw_id instance),
                      GetRouterMethod applicationRef method,
                      CallResolve (mw_id instance)]
           in (case call of
                 Throws e \<Rightarrow> (pre, RejectedSync e)
               | Returns resolve \<Rightarrow>
                   if \<not> instanceof_Promise resolve
                   then (pre @ bindWithProxy resolve, Fulfilled)
                   else (case resolve of
                           NativePromise (Settles v) \<Rightarrow>
                             (pre @ [Await (Settles v)] @ bindWithProxy (Plain v), Fulfilled)
                         | NativePromise (Fails e) \<Rightarrow>
                             (pre @ [Await (Fails e)], RejectedAsync [e])
                         | NativePromise Never \<Rightarrow>
                             (pre @ [Await Never], Pending)
                         | Plain v \<Rightarrow> (pre @ bindWithProxy resolve, Fulfilled)))))"

subsection \<open>Binding: the fan-out over modules, configurations, routes and types\<close>

text \<open>\<^verbatim>\<open>[].concat(config.middleware)\<close>: a single type becomes a one-element array.\<close>

fun concat_middleware :: "middleware_field \<Rightarrow> metatype list" where
  "concat_middleware (Single mt) = [mt]"
| "concat_middleware (Many mts) = mts"

text \<open>
  The \<^verbatim>\<open>async (metatype) => ...\<close> callback of \<^verbatim>\<open>registerRouteMiddleware\<close>. The
  \<^verbatim>\<open>RuntimeException\<close> is thrown before any suspension; after a successful lookup the callback
  awaits \<^verbatim>\<open>bindHandler\<close>.
\<close>

definition route_branch ::
  "middleware_container \<Rightarrow> route_path \<Rightarrow> module_key \<Rightarrow> application_ref \<Rightarrow> metatype \<Rightarrow>
   event list \<times> outcome" where
  "route_branch middlewareContainer routePath module applicationRef metatype =
     (let collection = getMiddleware middlewareContainer module
      in (case collection (mt_name metatype) of
            None \<Rightarrow> ([], RejectedSync RuntimeException)
          | Some mw \<Rightarrow>
              (case bindHandler (w_instance mw) metatype applicationRef RequestMethod_ALL
                      routePath of
                 (evs, r) \<Rightarrow> (evs, awaited r))))"

text \<open>
  Each of the four methods below returns one trace per innermost branch (the branches run
  concurrently, so no order is given between their traces) and the outcome of its promise.
\<close>

definition registerRouteMiddleware ::
  "middleware_container \<Rightarrow> route_path \<Rightarrow> middleware_configuration \<Rightarrow> module_key \<Rightarrow>
   application_ref \<Rightarrow> event list list \<times> outcome" where
  "registerRouteMiddleware middlewareContainer routePath config module applicationRef =
     (let middlewareCollection = concat_middleware (middleware config);
          bs = map (route_branch middlewareContainer routePath module applicationRef)
                 middlewareCollection
      in (map fst bs, awaited (promise_all (map snd bs))))"

definition registerMiddlewareConfig ::
  "middleware_container \<Rightarrow> middleware_configuration \<Rightarrow> module_key \<Rightarrow> application_ref \<Rightarrow>
   event list list \<times> outcome" where
  "registerMiddlewareConfig middlewareContainer config module applicationRef =
     (let bs = map (\<lambda>routePath.
                 case registerRouteMiddleware middlewareContainer routePath config module
                        applicationRef of
                   (evss, r) \<Rightarrow> (evss, awaited r))
               (forRoutes config)
      in (concat (map fst bs), awaited (promise_all (map snd bs))))"

definition registerAllConfigs ::
  "middleware_container \<Rightarrow> application_ref \<Rightarrow> module_key \<Rightarrow>
   middleware_configuration list \<Rightarrow> (event list list \<times> outcome) list" where
  "registerAllConfigs middlewareContainer applicationRef module middlewareConfig =
     map (\<lambda>config.
            case registerMiddlewareConfig middlewareContainer config module applicationRef of
              (evss, r) \<Rightarrow> (evss, awaited r))
         middlewareConfig"

definition registerMiddleware ::
  "middleware_container \<Rightarrow> application_ref \<Rightarrow> event list list \<times> outcome" where
  "registerMiddleware middlewareContainer applicationRef =
     (let configs = getConfigs middlewareContainer;
          bs = map (\<lambda>(module, moduleConfigs).
                 let cs = registerAllConfigs middlewareContainer applicationRef module moduleConfigs
                 in (concat (map fst cs), awaited (promise_all (map snd cs))))
               configs
      in (concat (map fst bs), awaited (promise_all (map snd bs))))"

subsection \<open>Request time: invoking a registered proxy\<close>

text \<open>What a bound target does when the router calls it with a request.\<close>

datatype target_behaviour = Completes | ThrowsSync error | ReturnsRejected error

text \<open>
  Modelled from the spec: the function \<^verbatim>\<open>createProxy\<close> returns (\<^verbatim>\<open>../router/router-proxy\<close>).
  It invokes the target; if the target throws synchronously or its returned awaitable
  rejects, it invokes \<^verbatim>\<open>handle\<close> of the exception handler with the error instead of letting
  the error escape. The result is the trace of the invocation and the error that escapes
  to the router, if any.
\<close>

definition invoke_proxy ::
  "(jsvalue \<Rightarrow> target_behaviour) \<Rightarrow> proxy \<Rightarrow> event list \<times> error option" where
  "invoke_proxy behaviour p =
     (case behaviour (p_target p) of
        Completes \<Rightarrow> ([InvokeTarget (p_target p)], None)
      | ThrowsSync e \<Rightarrow> ([InvokeTarget (p_target p), Handle (p_handler p) e], None)
      | ReturnsRejected e \<Rightarrow> ([InvokeTarget (p_target p), Handle (p_handler p) e], None))"

fun is_handle :: "event \<Rightarrow> bool" where
  "is_handle (Handle h e) = True"
| "is_handle ev = False"

subsection \<open>Notions used to state the properties\<close>

text \<open>A promise that rejects, at once or after a suspension.\<close>

fun rejected :: "outcome \<Rightarrow> bool" where
  "rejected (RejectedSync e) = True"
| "rejected (RejectedAsync es) = True"
| "rejected r = False"


subsection \<open>A small application\<close>

text \<open>
  One module \<^verbatim>\<open>AppModule\<close> that applies the middleware type \<^verbatim>\<open>Logger\<close> to the route
  \<^verbatim>\<open>/users\<close>, with hooks and \<^verbatim>\<open>Logger\<close> instances of several kinds.
\<close>

definition empty_container :: middleware_container where
  "empty_container = \<lparr>mc_middleware = (\<lambda>k. Map.empty), mc_configs = []\<rparr>"

definition logger :: metatype where
  "logger = \<lparr>mt_name = ''Logger''\<rparr>"

definition users_config :: middleware_configuration where
  "users_config = \<lparr>middleware = Single logger, forRoutes = [''/users'']\<rparr>"

text \<open>
  A second type, \<^verbatim>\<open>Auth\<close>, which no container below holds a wrapper for, and a
  configuration that applies both types, as an array, to the route.
\<close>

definition auth :: metatype where
  "auth = \<lparr>mt_name = ''Auth''\<rparr>"

definition mixed_config :: middleware_configuration where
  "mixed_config = \<lparr>middleware = Many [logger, auth], forRoutes = [''/users'']\<rparr>"

text \<open>\<^verbatim>\<open>consumer.apply(Logger).forRoutes('/users')\<close> on the builder.\<close>

definition apply_users_config :: "middleware_builder \<Rightarrow> middleware_builder" where
  "apply_users_config b = b\<lparr>mb_collection := mb_collection b @ [users_config]\<rparr>"


definition void_hook :: "middleware_builder \<Rightarrow> hook_result" where
  "void_hook b = HookReturns (apply_users_config b) RetUndefined"

definition foreign_hook :: "middleware_builder \<Rightarrow> hook_result" where
  "foreign_hook b = HookReturns (apply_users_config b) (RetForeign 0)"




definition plain_module :: nest_module where
  "plain_module = \<lparr>configure = None\<rparr>"


definition logger_instance :: "call_result option \<Rightarrow> nest_middleware" where
  "logger_instance r = \<lparr>mw_id = 1, mw_resolve = r\<rparr>"

text \<open>The container after resolution, with the given instance as the \<^verbatim>\<open>Logger\<close> of the module.\<close>

definition logger_container :: "nest_middleware \<Rightarrow> middleware_container" where
  "logger_container inst =
     \<lparr>mc_middleware =
        (\<lambda>k. if k = ''AppModule''
             then [''Logger'' \<mapsto> \<lparr>w_instance = inst, w_metatype = logger\<rparr>]
             else Map.empty),
      mc_configs = [(''AppModule'', [users_config])]\<rparr>"

text \<open>A container that holds the configuration but no wrapper for \<^verbatim>\<open>Logger\<close>.\<close>

definition unresolved_container :: middleware_container where
  "unresolved_container =
     \<lparr>mc_middleware = (\<lambda>k. Map.empty), mc_configs = [(''AppModule'', [users_config])]\<rparr>"

text \<open>A request-time behaviour: the handler \<open>Fn 7\<close> throws, every other target completes.\<close>

definition faulty_target :: "jsvalue \<Rightarrow> target_behaviour" where
  "faulty_target v = (if v = Plain (Fn 7) then ThrowsSync (UserError 9) else Completes)"


section \<open>General facts\<close>

subsection \<open>Outcomes and \<^verbatim>\<open>Promise.all\<close>\<close>

lemma candidates_awaited: "candidates (awaited r) = candidates r"
  by (cases r) simp_all

lemma sync_errors_Nil_iff: "sync_errors bs = [] \<longleftrightarrow> (\<forall>e. RejectedSync e \<notin> set bs)"
  by (induction bs rule: sync_errors.induct) auto

lemma set_sync_errors: "set (sync_errors bs) = {e. RejectedSync e \<in> set bs}"
  by (induction bs rule: sync_errors.induct) auto

lemma set_async_errors: "set (async_errors bs) = {e. \<exists>es. RejectedAsync es \<in> set bs \<and> e \<in> set es}"
  by (induction bs rule: async_errors.induct) auto

lemma list_ex_is_RejectedAsync: "list_ex is_RejectedAsync bs \<longleftrightarrow> (\<exists>es. RejectedAsync es \<in> set bs)"
  by (induction bs rule: async_errors.induct) auto

lemma promise_all_candidates:
  assumes "b \<in> set bs" and "sync_errors bs = []" and "e \<in> set (candidates b)"
  shows "e \<in> set (candidates (promise_all bs))"
proof -
  from assms(1,2) have "\<And>e. b \<noteq> RejectedSync e"
    by (auto simp: sync_errors_Nil_iff)
  with assms(3) obtain es where es: "b = RejectedAsync es" "e \<in> set es"
    by (cases b) auto
  with assms(1) have "list_ex is_RejectedAsync bs" "e \<in> set (async_errors bs)"
    by (auto simp: list_ex_is_RejectedAsync set_async_errors)
  with assms(2) show ?thesis
    by (simp add: promise_all_def)
qed

lemma promise_all_sync:
  "sync_errors bs = e # es \<Longrightarrow> promise_all bs = RejectedAsync [e]"
  by (simp add: promise_all_def)


lemma awaited_not_sync: "awaited r \<noteq> RejectedSync e"
  by (cases r) simp_all

lemma sync_errors_map_awaited: "sync_errors (map (\<lambda>x. awaited (f x)) xs) = []"
  by (auto simp: sync_errors_Nil_iff awaited_not_sync[symmetric])

subsection \<open>The six ways \<^verbatim>\<open>bindHandler\<close> can go\<close>

lemma bindHandler_Plain:
  "mw_resolve inst = Some (Returns (Plain v)) \<Longrightarrow>
   bindHandler inst mt applicationRef method path =
     ([CreateExceptionsHandler (mw_id inst), GetRouterMethod applicationRef method,
       CallResolve (mw_id inst),
       RouterRegister (routerMethodFactory_get applicationRef method) path
         (createProxy (Plain v) (create inst))],
      Fulfilled)"
  by (simp add: bindHandler_def bindHandlerWithProxy_def)

lemma bindHandler_Settles:
  "mw_resolve inst = Some (Returns (NativePromise (Settles v))) \<Longrightarrow>
   bindHandler inst mt applicationRef method path =
     ([CreateExceptionsHandler (mw_id inst), GetRouterMethod applicationRef method,
       CallResolve (mw_id inst), Await (Settles v),
       RouterRegister (routerMethodFactory_get applicationRef method) path
         (createProxy (Plain v) (create inst))],
      Fulfilled)"
  by (simp add: bindHandler_def bindHandlerWithProxy_def)

lemma bindHandler_Fails:
  "mw_resolve inst = Some (Returns (NativePromise (Fails e))) \<Longrightarrow>
   bindHandler inst mt applicationRef method path =
     ([CreateExceptionsHandler (mw_id inst), GetRouterMethod applicationRef method,
       CallResolve (mw_id inst), Await (Fails e)],
      RejectedAsync [e])"
  by (simp add: bindHandler_def bindHandlerWithProxy_def)

lemma bindHandler_Never:
  "mw_resolve inst = Some (Returns (NativePromise Never)) \<Longrightarrow>
   bindHandler inst mt applicationRef method path =
     ([CreateExceptionsHandler (mw_id inst), GetRouterMethod applicationRef method,
       CallResolve (mw_id inst), Await Never],
      Pending)"
  by (simp add: bindHandler_def bindHandlerWithProxy_def)

lemma bindHandler_Throws:
  "mw_resolve inst = Some (Throws e) \<Longrightarrow>
   bindHandler inst mt applicationRef method path =
     ([CreateExceptionsHandler (mw_id inst), GetRouterMethod applicationRef method,
       CallResolve (mw_id inst)],
      RejectedSync e)"
  by (simp add: bindHandler_def bindHandlerWithProxy_def)

lemma bindHandler_None:
  "mw_resolve inst = None \<Longrightarrow>
   bindHandler inst mt applicationRef method path =
     ([], RejectedSync (InvalidMiddlewareException (mt_name mt)))"
  by (simp add: bindHandler_def)

lemmas bindHandler_cases =
  bindHandler_None bindHandler_Throws bindHandler_Plain bindHandler_Settles
  bindHandler_Fails bindHandler_Never

lemma resolve_cases:
  obtains "mw_resolve inst = None"
  | e where "mw_resolve inst = Some (Throws e)"
  | v where "mw_resolve inst = Some (Returns (Plain v))"
  | v where "mw_resolve inst = Some (Returns (NativePromise (Settles v)))"
  | e where "mw_resolve inst = Some (Returns (NativePromise (Fails e)))"
  | "mw_resolve inst = Some (Returns (NativePromise Never))"
proof (cases "mw_resolve inst")
  case None
  then show ?thesis using that by blast
next
  case (Some c)
  show ?thesis
  proof (cases c)
    case (Throws e)
    with Some show ?thesis using that by blast
  next
    case (Returns r)
    show ?thesis
    proof (cases r)
      case (Plain v)
      with Some Returns show ?thesis using that by blast
    next
      case (NativePromise f)
      with Some Returns show ?thesis using that by (cases f) blast+
    qed
  qed
qed


subsection \<open>Rejections travel up the fan-out\<close>

lemma candidates_rejected: "e \<in> set (candidates r) \<Longrightarrow> rejected r"
  by (cases r) simp_all

lemma route_branch_absent:
  "getMiddleware c k (mt_name mt) = None \<Longrightarrow>
   route_branch c routePath k applicationRef mt = ([], RejectedSync RuntimeException)"
  by (simp add: route_branch_def)

lemma route_branch_present:
  "getMiddleware c k (mt_name mt) = Some mw \<Longrightarrow>
   route_branch c routePath k applicationRef mt =
     (fst (bindHandler (w_instance mw) mt applicationRef RequestMethod_ALL routePath),
      awaited (snd (bindHandler (w_instance mw) mt applicationRef RequestMethod_ALL routePath)))"
  by (simp add: route_branch_def split: prod.splits)

lemma route_branch_sync:
  "snd (route_branch c routePath k applicationRef mt) = RejectedSync e \<Longrightarrow> e = RuntimeException"
  by (cases "getMiddleware c k (mt_name mt)")
     (simp_all add: route_branch_absent route_branch_present awaited_not_sync)

lemma route_sync_errors:
  "set (sync_errors (map snd (map (route_branch c routePath k applicationRef) mts)))
     \<subseteq> {RuntimeException}"
  by (auto simp: set_sync_errors dest: route_branch_sync[OF sym])

lemma registerRouteMiddleware_snd:
  "snd (registerRouteMiddleware c routePath config k applicationRef) =
     awaited (promise_all (map snd (map (route_branch c routePath k applicationRef)
                                       (concat_middleware (middleware config)))))"
  by (simp add: registerRouteMiddleware_def Let_def)

lemma registerRouteMiddleware_fst:
  "fst (registerRouteMiddleware c routePath config k applicationRef) =
     map (\<lambda>mt. fst (route_branch c routePath k applicationRef mt))
       (concat_middleware (middleware config))"
  by (simp add: registerRouteMiddleware_def Let_def)

lemma route_absent_outcome:
  assumes "mt \<in> set (concat_middleware (middleware config))"
    and "getMiddleware c k (mt_name mt) = None"
  shows "snd (registerRouteMiddleware c routePath config k applicationRef) =
           RejectedAsync [RuntimeException]"
proof -
  let ?bs = "map snd (map (route_branch c routePath k applicationRef)
                        (concat_middleware (middleware config)))"
  from assms have "RejectedSync RuntimeException \<in> set ?bs"
    by (force simp: route_branch_absent)
  then have "RuntimeException \<in> set (sync_errors ?bs)"
    by (simp add: set_sync_errors)
  then obtain e es where es: "sync_errors ?bs = e # es"
    by (cases "sync_errors ?bs") auto
  with route_sync_errors [of c routePath k applicationRef "concat_middleware (middleware config)"]
  have "e = RuntimeException"
    by auto
  with es show ?thesis
    by (simp add: registerRouteMiddleware_snd promise_all_sync)
qed


lemma registerMiddlewareConfig_snd:
  "snd (registerMiddlewareConfig c config k applicationRef) =
     awaited (promise_all (map (\<lambda>routePath.
        awaited (snd (registerRouteMiddleware c routePath config k applicationRef)))
       (forRoutes config)))"
  by (simp add: registerMiddlewareConfig_def Let_def comp_def case_prod_unfold)

lemma config_candidates:
  assumes "routePath \<in> set (forRoutes config)"
    and "e \<in> set (candidates (snd (registerRouteMiddleware c routePath config k applicationRef)))"
  shows "e \<in> set (candidates (snd (registerMiddlewareConfig c config k applicationRef)))"
proof -
  let ?f = "\<lambda>routePath. snd (registerRouteMiddleware c routePath config k applicationRef)"
  let ?bs = "map (\<lambda>routePath. awaited (?f routePath)) (forRoutes config)"
  from assms(1) have "awaited (?f routePath) \<in> set ?bs"
    by force
  moreover have "sync_errors ?bs = []"
    by (rule sync_errors_map_awaited)
  moreover from assms(2) have "e \<in> set (candidates (awaited (?f routePath)))"
    by (simp add: candidates_awaited)
  ultimately have "e \<in> set (candidates (promise_all ?bs))"
    by (rule promise_all_candidates)
  then show ?thesis
    by (simp add: registerMiddlewareConfig_snd candidates_awaited)
qed

lemma registerAllConfigs_snd:
  "map snd (registerAllConfigs c applicationRef k cfgs) =
     map (\<lambda>config. awaited (snd (registerMiddlewareConfig c config k applicationRef))) cfgs"
  by (simp add: registerAllConfigs_def comp_def case_prod_unfold)

lemma registerMiddleware_snd:
  "snd (registerMiddleware c applicationRef) =
     awaited (promise_all (map (\<lambda>entry.
        awaited (promise_all (map snd
          (registerAllConfigs c applicationRef (fst entry) (snd entry)))))
       (getConfigs c)))"
  by (simp add: registerMiddleware_def Let_def comp_def case_prod_unfold)

lemma module_candidates:
  assumes "(k, cfgs) \<in> set (getConfigs c)" and "config \<in> set cfgs"
    and "e \<in> set (candidates (snd (registerMiddlewareConfig c config k applicationRef)))"
  shows "e \<in> set (candidates (snd (registerMiddleware c applicationRef)))"
proof -
  let ?g = "\<lambda>config. snd (registerMiddlewareConfig c config k applicationRef)"
  let ?cs = "map (\<lambda>config. awaited (?g config)) cfgs"
  let ?h = "\<lambda>entry. promise_all (map snd
              (registerAllConfigs c applicationRef (fst entry) (snd entry)))"
  let ?bs = "map (\<lambda>entry. awaited (?h entry)) (getConfigs c)"
  from assms(2) have "awaited (?g config) \<in> set ?cs"
    by force
  moreover have "sync_errors ?cs = []"
    by (rule sync_errors_map_awaited)
  moreover from assms(3) have "e \<in> set (candidates (awaited (?g config)))"
    by (simp add: candidates_awaited)
  ultimately have "e \<in> set (candidates (promise_all ?cs))"
    by (rule promise_all_candidates)
  then have inner: "e \<in> set (candidates (awaited (?h (k, cfgs))))"
    by (simp add: registerAllConfigs_snd candidates_awaited)
  from assms(1) have "awaited (?h (k, cfgs)) \<in> set ?bs"
    by force
  moreover have "sync_errors ?bs = []"
    by (rule sync_errors_map_awaited)
  ultimately have "e \<in> set (candidates (promise_all ?bs))"
    using inner by (rule promise_all_candidates)
  then show ?thesis
    by (simp add: registerMiddleware_snd candidates_awaited)
qed


subsection \<open>The resolution phase\<close>











lemma registered_proxy:
  assumes "RouterRegister r path' p \<in> set (fst (bindHandler inst mt applicationRef method path))"
  shows "p_handler p = create inst \<and> \<not> instanceof_Promise (p_target p)"
proof (cases inst rule: resolve_cases)
  case 1
  with assms show ?thesis by (simp add: bindHandler_None)
next
  case (2 e)
  with assms show ?thesis by (simp add: bindHandler_Throws)
next
  case (3 v)
  with assms show ?thesis by (auto simp: bindHandler_Plain createProxy_def)
next
  case (4 v)
  with assms show ?thesis by (auto simp: bindHandler_Settles createProxy_def)
next
  case (5 e)
  with assms show ?thesis by (simp add: bindHandler_Fails)
next
  case 6
  with assms show ?thesis by (simp add: bindHandler_Never)
qed

lemma branch_registrations_fulfilled:
  assumes "snd (route_branch c routePath k applicationRef mt) = Fulfilled"
    and "getMiddleware c k (mt_name mt) = Some mw"
  shows "\<exists>target. registrations (fst (route_branch c routePath k applicationRef mt)) =
           [RouterRegister (routerMethodFactory_get applicationRef RequestMethod_ALL) routePath
              (createProxy target (create (w_instance mw)))]"
  using assms(1)
  by (cases "w_instance mw" rule: resolve_cases)
     (auto simp add: assms(2) route_branch_present bindHandler_cases registrations_def)

lemma branch_registrations_other:
  assumes "snd (route_branch c routePath k applicationRef mt) \<noteq> Fulfilled"
  shows "registrations (fst (route_branch c routePath k applicationRef mt)) = []"
proof (cases "getMiddleware c k (mt_name mt)")
  case None
  then show ?thesis
    by (simp add: route_branch_absent registrations_def)
next
  case (Some mw)
  with assms show ?thesis
    by (cases "w_instance mw" rule: resolve_cases)
       (simp_all add: route_branch_present bindHandler_cases registrations_def)
qed

lemma branch_fulfilled_present:
  "snd (route_branch c routePath k applicationRef mt) = Fulfilled \<Longrightarrow>
   \<exists>mw. getMiddleware c k (mt_name mt) = Some mw"
  by (cases "getMiddleware c k (mt_name mt)") (simp_all add: route_branch_absent)

lemma branch_registrations_length:
  "length (registrations (fst (route_branch c routePath k applicationRef mt))) =
     (if snd (route_branch c routePath k applicationRef mt) = Fulfilled then 1 else 0)"
proof (cases "snd (route_branch c routePath k applicationRef mt) = Fulfilled")
  case True
  from branch_fulfilled_present [OF True] obtain mw
    where "getMiddleware c k (mt_name mt) = Some mw"
    by blast
  from branch_registrations_fulfilled [OF True this] True show ?thesis
    by auto
next
  case False
  then show ?thesis
    by (simp add: branch_registrations_other)
qed

lemma route_registrations_count:
  "length (concat (map (\<lambda>mt. registrations (fst (route_branch c routePath k applicationRef mt)))
                    mts)) =
   length (filter (\<lambda>mt. snd (route_branch c routePath k applicationRef mt) = Fulfilled) mts)"
  by (induction mts) (simp_all add: branch_registrations_length)

section \<open>The properties\<close>

subsection \<open>Loading configurations\<close>

text \<open>
  C1, as stated, fails. The statement is that the built configurations are appended only
  if the value that \<^verbatim>\<open>configure\<close> returned is a builder, and that a foreign return value
  leaves the registry untouched. The hook \<open>foreign_hook\<close> applies one configuration and
  returns a value that is not a builder; \<^verbatim>\<open>loadConfiguration\<close> appends that configuration
  under the module's key.
\<close>

theorem loadConfiguration_appends_despite_foreign_return:
  "foreign_hook new_MiddlewareBuilder =
     HookReturns (apply_users_config new_MiddlewareBuilder) (RetForeign 0)
   \<and> instanceof_MiddlewareBuilder (Returned (RetForeign 0)) = False
   \<and> loadConfiguration empty_container \<lparr>configure = Some foreign_hook\<rparr> ''AppModule'' =
       ([NewBuilder, CallConfigure ''AppModule'', AddConfig ''AppModule''],
        Inr (empty_container\<lparr>mc_configs := [(''AppModule'', [users_config])]\<rparr>))"
  by (simp add: loadConfiguration_def foreign_hook_def addConfig_def build_def
        apply_users_config_def new_MiddlewareBuilder_def empty_container_def)

text \<open>
  C1, amended. For a module whose instance has a \<^verbatim>\<open>configure\<close> hook, \<^verbatim>\<open>loadConfiguration\<close>
  constructs a builder and invokes the hook with it; when the hook returns, whatever the
  value it returns, the list built from that builder is appended to the registry under
  the module's key, and no error is raised. The returned value is not inspected: the
  configurations travel through the builder that was passed in.
\<close>

theorem loadConfiguration_with_hook:
  "configure inst = Some hook \<Longrightarrow> hook new_MiddlewareBuilder = HookReturns b v \<Longrightarrow>
   loadConfiguration middlewareContainer inst k =
     ([NewBuilder, CallConfigure k, AddConfig k],
      Inr (addConfig (build b) k middlewareContainer))
   \<and> getConfigs (addConfig (build b) k middlewareContainer) =
       append_configs (mb_collection b) k (getConfigs middlewareContainer)"
  by (simp add: loadConfiguration_def addConfig_def getConfigs_def build_def)

theorem loadConfiguration_with_hook_witness:
  "configure \<lparr>configure = Some void_hook\<rparr> = Some void_hook
   \<and> void_hook new_MiddlewareBuilder =
       HookReturns (apply_users_config new_MiddlewareBuilder) RetUndefined
   \<and> loadConfiguration unresolved_container \<lparr>configure = Some void_hook\<rparr> ''AppModule'' =
       ([NewBuilder, CallConfigure ''AppModule'', AddConfig ''AppModule''],
        Inr (addConfig [users_config] ''AppModule'' unresolved_container))
   \<and> getConfigs (addConfig [users_config] ''AppModule'' unresolved_container) =
       [(''AppModule'', [users_config, users_config])]"
proof -
  have h1: "configure \<lparr>configure = Some void_hook\<rparr> = Some void_hook"
    by simp
  have h2: "void_hook new_MiddlewareBuilder =
      HookReturns (apply_users_config new_MiddlewareBuilder) RetUndefined"
    by (simp add: void_hook_def)
  have b: "build (apply_users_config new_MiddlewareBuilder) = [users_config]"
    "mb_collection (apply_users_config new_MiddlewareBuilder) = [users_config]"
    by (simp_all add: build_def apply_users_config_def new_MiddlewareBuilder_def)
  have g: "getConfigs unresolved_container = [(''AppModule'', [users_config])]"
    by (simp add: getConfigs_def unresolved_container_def)
  show ?thesis
    using h1 h2 loadConfiguration_with_hook [OF h1 h2, of unresolved_container "''AppModule''"]
    by (simp add: b g)
qed

text \<open>
  C8. For a module whose instance has no \<^verbatim>\<open>configure\<close> hook, \<^verbatim>\<open>loadConfiguration\<close> returns
  normally, with an empty trace (no builder is constructed, nothing is appended) and the
  container it was given.
\<close>

theorem loadConfiguration_without_hook:
  "configure inst = None \<Longrightarrow>
   loadConfiguration middlewareContainer inst k = ([], Inr middlewareContainer)"
  by (simp add: loadConfiguration_def)

theorem loadConfiguration_without_hook_witness:
  "configure plain_module = None \<and>
   loadConfiguration unresolved_container plain_module ''AppModule'' =
     ([], Inr unresolved_container)"
proof -
  have h: "configure plain_module = None"
    by (simp add: plain_module_def)
  show ?thesis
    using h loadConfiguration_without_hook [OF h, of unresolved_container "''AppModule''"]
    by simp
qed

subsection \<open>Errors of the startup phases\<close>





subsection \<open>Binding one handler\<close>

text \<open>
  C3, as stated, fails for an awaitable that is not an instance of \<^verbatim>\<open>Promise\<close>. When
  \<^verbatim>\<open>resolve()\<close> returns a thenable, \<^verbatim>\<open>bindHandler\<close> does not await it: the trace has no
  \<^verbatim>\<open>await\<close>, the registration is made at once, and the target handed to the proxy is the
  thenable itself.
\<close>

theorem bindHandler_registers_thenable_itself:
  "instanceof_Promise (Plain (Thenable 3)) = False
   \<and> bindHandler (logger_instance (Some (Returns (Plain (Thenable 3))))) logger 0
       RequestMethod_ALL ''/users'' =
       ([CreateExceptionsHandler 1, GetRouterMethod 0 RequestMethod_ALL, CallResolve 1,
         RouterRegister \<lparr>r_app = 0, r_method = RequestMethod_ALL\<rparr> ''/users''
           \<lparr>p_target = Plain (Thenable 3), p_handler = ExceptionsHandler 1\<rparr>],
        Fulfilled)
   \<and> p_target \<lparr>p_target = Plain (Thenable 3), p_handler = ExceptionsHandler 1\<rparr>
       = Plain (Thenable 3)"
  by (simp add: bindHandler_def bindHandlerWithProxy_def logger_instance_def create_def
        createProxy_def routerMethodFactory_get_def)

text \<open>
  C3, amended. For an instance with a \<^verbatim>\<open>resolve\<close> member, \<^verbatim>\<open>bindHandler\<close> registers the
  same proxy with the router whether \<^verbatim>\<open>resolve()\<close> returns the value \<open>h\<close> directly or a
  native promise (an instance of \<^verbatim>\<open>Promise\<close>) that settles with \<open>h\<close>. With the native
  promise, the registration follows the \<^verbatim>\<open>await\<close> in the trace, its target is the settled
  value \<open>h\<close> and not the promise, and while the promise has not settled (here: never
  settles, or fails) nothing is registered. A value returned directly, a thenable that is
  not a native promise included, is registered at once, unawaited, as the target.
\<close>

theorem bindHandler_direct_and_awaitable_agree:
  "registrations (fst (bindHandler (inst\<lparr>mw_resolve := Some (Returns (Plain h))\<rparr>)
       mt applicationRef method path)) =
     [RouterRegister (routerMethodFactory_get applicationRef method) path
        (createProxy (Plain h) (create inst))]
   \<and> registrations
         (fst (bindHandler (inst\<lparr>mw_resolve := Some (Returns (NativePromise (Settles h)))\<rparr>)
            mt applicationRef method path)) =
       registrations (fst (bindHandler (inst\<lparr>mw_resolve := Some (Returns (Plain h))\<rparr>)
            mt applicationRef method path))
   \<and> snd (bindHandler (inst\<lparr>mw_resolve := Some (Returns (Plain h))\<rparr>)
            mt applicationRef method path) = Fulfilled
   \<and> bindHandler (inst\<lparr>mw_resolve := Some (Returns (NativePromise (Settles h)))\<rparr>)
         mt applicationRef method path =
       ([CreateExceptionsHandler (mw_id inst), GetRouterMethod applicationRef method,
         CallResolve (mw_id inst), Await (Settles h),
         RouterRegister (routerMethodFactory_get applicationRef method) path
           (createProxy (Plain h) (create inst))],
        Fulfilled)
   \<and> \<not> instanceof_Promise (p_target (createProxy (Plain h) (create inst)))
   \<and> bindHandler (inst\<lparr>mw_resolve := Some (Returns (NativePromise Never))\<rparr>)
         mt applicationRef method path =
       ([CreateExceptionsHandler (mw_id inst), GetRouterMethod applicationRef method,
         CallResolve (mw_id inst), Await Never],
        Pending)
   \<and> bindHandler (inst\<lparr>mw_resolve := Some (Returns (NativePromise (Fails e)))\<rparr>)
         mt applicationRef method path =
       ([CreateExceptionsHandler (mw_id inst), GetRouterMethod applicationRef method,
         CallResolve (mw_id inst), Await (Fails e)],
        RejectedAsync [e])
   \<and> bindHandler (inst\<lparr>mw_resolve := Some (Returns (Plain h))\<rparr>)
         mt applicationRef method path =
       ([CreateExceptionsHandler (mw_id inst), GetRouterMethod applicationRef method,
         CallResolve (mw_id inst),
         RouterRegister (routerMethodFactory_get applicationRef method) path
           (createProxy (Plain h) (create inst))],
        Fulfilled)"
  by (simp add: bindHandler_cases registrations_def create_def createProxy_def)

theorem bindHandler_direct_and_awaitable_agree_witness:
  "registrations
     (fst (bindHandler (logger_instance (Some (Returns (NativePromise (Settles (Fn 7))))))
        logger 0 RequestMethod_ALL ''/users'')) =
   registrations
     (fst (bindHandler (logger_instance (Some (Returns (Plain (Fn 7)))))
        logger 0 RequestMethod_ALL ''/users''))
   \<and> registrations
        (fst (bindHandler (logger_instance (Some (Returns (Plain (Fn 7)))))
           logger 0 RequestMethod_ALL ''/users'')) =
       [RouterRegister \<lparr>r_app = 0, r_method = RequestMethod_ALL\<rparr> ''/users''
          \<lparr>p_target = Plain (Fn 7), p_handler = ExceptionsHandler 1\<rparr>]"
  using bindHandler_direct_and_awaitable_agree
    [of "Fn 7" "logger_instance None" logger 0 RequestMethod_ALL "''/users''"]
  by (simp add: logger_instance_def create_def createProxy_def routerMethodFactory_get_def
        registrations_def)

text \<open>
  C5. For an instance whose \<^verbatim>\<open>resolve\<close> member is undefined, \<^verbatim>\<open>bindHandler\<close> fails with
  the invalid-middleware error that carries the name of the metatype, before any effect:
  its trace is empty, so nothing is registered with the router.
\<close>

theorem bindHandler_without_resolve:
  "mw_resolve inst = None \<Longrightarrow>
   bindHandler inst mt applicationRef method path =
     ([], RejectedSync (InvalidMiddlewareException (mt_name mt)))
   \<and> registrations (fst (bindHandler inst mt applicationRef method path)) = []"
  by (simp add: bindHandler_None registrations_def)

theorem bindHandler_without_resolve_witness:
  "mw_resolve (logger_instance None) = None
   \<and> bindHandler (logger_instance None) logger 0 RequestMethod_ALL ''/users'' =
       ([], RejectedSync (InvalidMiddlewareException ''Logger''))"
proof -
  have h: "mw_resolve (logger_instance None) = None"
    by (simp add: logger_instance_def)
  show ?thesis
    using h bindHandler_without_resolve [OF h, of logger 0 RequestMethod_ALL "''/users''"]
    by (simp add: logger_def)
qed



text \<open>
  C10. \<^verbatim>\<open>bindHandler\<close> awaits what \<^verbatim>\<open>resolve()\<close> returned exactly when that value is an
  instance of \<^verbatim>\<open>Promise\<close>. Every other value, a thenable that is not a native promise
  included, is handed to the proxy as it is and registered at once, with no \<^verbatim>\<open>await\<close>.
\<close>

theorem bindHandler_instanceof_Promise_only:
  "mw_resolve inst = Some (Returns r) \<Longrightarrow>
   (\<not> instanceof_Promise r
      \<longrightarrow> bindHandler inst mt applicationRef method path =
            ([CreateExceptionsHandler (mw_id inst), GetRouterMethod applicationRef method,
              CallResolve (mw_id inst),
              RouterRegister (routerMethodFactory_get applicationRef method) path
                (createProxy r (create inst))],
             Fulfilled))
   \<and> ((\<exists>f. Await f \<in> set (fst (bindHandler inst mt applicationRef method path)))
        \<longleftrightarrow> instanceof_Promise r)"
proof (cases r)
  case (Plain v)
  assume "mw_resolve inst = Some (Returns r)"
  with Plain show ?thesis
    by (simp add: bindHandler_Plain)
next
  case (NativePromise f)
  assume "mw_resolve inst = Some (Returns r)"
  with NativePromise show ?thesis
    by (cases f) (simp_all add: bindHandler_cases)
qed

theorem bindHandler_instanceof_Promise_only_witness:
  "mw_resolve (logger_instance (Some (Returns (Plain (Thenable 5)))))
     = Some (Returns (Plain (Thenable 5)))
   \<and> \<not> instanceof_Promise (Plain (Thenable 5))
   \<and> bindHandler (logger_instance (Some (Returns (Plain (Thenable 5))))) logger 0
       RequestMethod_ALL ''/users'' =
       ([CreateExceptionsHandler 1, GetRouterMethod 0 RequestMethod_ALL, CallResolve 1,
         RouterRegister \<lparr>r_app = 0, r_method = RequestMethod_ALL\<rparr> ''/users''
           \<lparr>p_target = Plain (Thenable 5), p_handler = ExceptionsHandler 1\<rparr>],
        Fulfilled)"
proof -
  have h: "mw_resolve (logger_instance (Some (Returns (Plain (Thenable 5)))))
     = Some (Returns (Plain (Thenable 5)))"
    by (simp add: logger_instance_def)
  show ?thesis
    using h bindHandler_instanceof_Promise_only [OF h, of logger 0 RequestMethod_ALL "''/users''"]
    by (simp add: logger_instance_def create_def createProxy_def routerMethodFactory_get_def)
qed

subsection \<open>Binding the routes of a configuration\<close>

text \<open>
  C4. When a configuration names a middleware type for which the module's registry entry
  has no wrapper, the branch of that type throws the internal error before it binds
  anything (it is not skipped), \<^verbatim>\<open>registerRouteMiddleware\<close> rejects with the internal error
  for every route, and for a route of the configuration the enclosing
  \<^verbatim>\<open>registerMiddlewareConfig\<close> and the whole \<^verbatim>\<open>registerMiddleware\<close> reject, the internal error
  among the errors they can reject with.
\<close>

theorem unresolved_middleware_rejects_binding:
  assumes "mt \<in> set (concat_middleware (middleware config))"
    and "getMiddleware c k (mt_name mt) = None"
  shows "route_branch c routePath k applicationRef mt = ([], RejectedSync RuntimeException)
     \<and> snd (registerRouteMiddleware c routePath config k applicationRef) =
         RejectedAsync [RuntimeException]
     \<and> (routePath \<in> set (forRoutes config)
        \<longrightarrow> rejected (snd (registerMiddlewareConfig c config k applicationRef))
            \<and> RuntimeException
                \<in> set (candidates (snd (registerMiddlewareConfig c config k applicationRef))))
     \<and> (routePath \<in> set (forRoutes config)
          \<and> (k, cfgs) \<in> set (getConfigs c) \<and> config \<in> set cfgs
        \<longrightarrow> rejected (snd (registerMiddleware c applicationRef))
            \<and> RuntimeException
                \<in> set (candidates (snd (registerMiddleware c applicationRef))))"
proof -
  have route: "snd (registerRouteMiddleware c routePath config k applicationRef) =
      RejectedAsync [RuntimeException]"
    by (rule route_absent_outcome [OF assms])
  have cfg: "RuntimeException
      \<in> set (candidates (snd (registerMiddlewareConfig c config k applicationRef)))"
    if "routePath \<in> set (forRoutes config)"
    using config_candidates [OF that, of RuntimeException c k applicationRef] route
    by simp
  have top: "RuntimeException \<in> set (candidates (snd (registerMiddleware c applicationRef)))"
    if "routePath \<in> set (forRoutes config)" "(k, cfgs) \<in> set (getConfigs c)"
      "config \<in> set cfgs"
    using module_candidates [OF that(2,3) cfg [OF that(1)]] .
  show ?thesis
    using route cfg top route_branch_absent [OF assms(2)]
    by (auto dest: candidates_rejected)
qed

theorem unresolved_middleware_rejects_binding_witness:
  "logger \<in> set (concat_middleware (middleware users_config))
   \<and> getMiddleware unresolved_container ''AppModule'' (mt_name logger) = None
   \<and> snd (registerRouteMiddleware unresolved_container ''/users'' users_config ''AppModule'' 0)
       = RejectedAsync [RuntimeException]
   \<and> rejected (snd (registerMiddleware unresolved_container 0))
   \<and> RuntimeException \<in> set (candidates (snd (registerMiddleware unresolved_container 0)))"
proof -
  have h1: "logger \<in> set (concat_middleware (middleware users_config))"
    by (simp add: users_config_def)
  have h2: "getMiddleware unresolved_container ''AppModule'' (mt_name logger) = None"
    by (simp add: getMiddleware_def unresolved_container_def)
  have h3: "''/users'' \<in> set (forRoutes users_config)
      \<and> (''AppModule'', [users_config]) \<in> set (getConfigs unresolved_container)
      \<and> users_config \<in> set [users_config]"
    by (simp add: getConfigs_def unresolved_container_def users_config_def)
  show ?thesis
    using h1 h2 h3
      unresolved_middleware_rejects_binding [OF h1 h2, of "''/users''" 0 "[users_config]"]
    by blast
qed

text \<open>
  C6. \<^verbatim>\<open>registerMiddleware\<close> runs one branch per module entry, configuration, route path
  and middleware type, in that nesting, the types being those of the array in the
  \<^verbatim>\<open>middleware\<close> field, or the one type when the field holds a single item, which behaves
  as the array of that one type. Each branch that fulfils has made exactly one
  registration, through the router function of \<^verbatim>\<open>RequestMethod.ALL\<close> and at the route
  path, with the proxy of the module's own instance; a branch that does not fulfil has made
  none. So the registrations of a route are as many as its fulfilled branches.
\<close>

theorem one_registration_per_bound_middleware:
  "(snd (route_branch c routePath k applicationRef mt) = Fulfilled
      \<longrightarrow> (\<exists>mw target.
             getMiddleware c k (mt_name mt) = Some mw
             \<and> registrations (fst (route_branch c routePath k applicationRef mt)) =
                 [RouterRegister \<lparr>r_app = applicationRef, r_method = RequestMethod_ALL\<rparr>
                    routePath (createProxy target (create (w_instance mw)))]))
   \<and> (snd (route_branch c routePath k applicationRef mt) \<noteq> Fulfilled
      \<longrightarrow> registrations (fst (route_branch c routePath k applicationRef mt)) = [])
   \<and> (middleware config = Many mts
      \<longrightarrow> registerRouteMiddleware c routePath config k applicationRef =
            (map (\<lambda>mt. fst (route_branch c routePath k applicationRef mt)) mts,
             awaited (promise_all
               (map (\<lambda>mt. snd (route_branch c routePath k applicationRef mt)) mts)))
          \<and> length (concat (map registrations
                      (fst (registerRouteMiddleware c routePath config k applicationRef)))) =
              length (filter
                (\<lambda>mt. snd (route_branch c routePath k applicationRef mt) = Fulfilled) mts))
   \<and> (middleware config = Single mt
      \<longrightarrow> registerRouteMiddleware c routePath config k applicationRef =
            ([fst (route_branch c routePath k applicationRef mt)],
             awaited (promise_all [snd (route_branch c routePath k applicationRef mt)]))
          \<and> registerRouteMiddleware c routePath config k applicationRef =
              registerRouteMiddleware c routePath (config\<lparr>middleware := Many [mt]\<rparr>) k
                applicationRef)
   \<and> registerRouteMiddleware c routePath (config\<lparr>middleware := Single mt\<rparr>) k applicationRef =
       registerRouteMiddleware c routePath (config\<lparr>middleware := Many [mt]\<rparr>) k applicationRef
   \<and> fst (registerMiddlewareConfig c config k applicationRef) =
       concat (map (\<lambda>routePath. fst (registerRouteMiddleware c routePath config k applicationRef))
                 (forRoutes config))
   \<and> fst (registerMiddleware c applicationRef) =
       concat (map (\<lambda>entry.
                 concat (map (\<lambda>config.
                           fst (registerMiddlewareConfig c config (fst entry) applicationRef))
                         (snd entry)))
               (getConfigs c))"
proof (intro conjI impI)
  assume f: "snd (route_branch c routePath k applicationRef mt) = Fulfilled"
  from branch_fulfilled_present [OF f] obtain mw
    where mw: "getMiddleware c k (mt_name mt) = Some mw"
    by blast
  from branch_registrations_fulfilled [OF f mw] mw
  show "\<exists>mw target.
          getMiddleware c k (mt_name mt) = Some mw
          \<and> registrations (fst (route_branch c routePath k applicationRef mt)) =
              [RouterRegister \<lparr>r_app = applicationRef, r_method = RequestMethod_ALL\<rparr>
                 routePath (createProxy target (create (w_instance mw)))]"
    by (simp add: routerMethodFactory_get_def)
next
  assume "snd (route_branch c routePath k applicationRef mt) \<noteq> Fulfilled"
  then show "registrations (fst (route_branch c routePath k applicationRef mt)) = []"
    by (rule branch_registrations_other)
next
  assume many: "middleware config = Many mts"
  then show "registerRouteMiddleware c routePath config k applicationRef =
            (map (\<lambda>mt. fst (route_branch c routePath k applicationRef mt)) mts,
             awaited (promise_all
               (map (\<lambda>mt. snd (route_branch c routePath k applicationRef mt)) mts)))"
    by (simp add: registerRouteMiddleware_def comp_def)
  from many show "length (concat (map registrations
                      (fst (registerRouteMiddleware c routePath config k applicationRef)))) =
              length (filter
                (\<lambda>mt. snd (route_branch c routePath k applicationRef mt) = Fulfilled) mts)"
    using route_registrations_count [of c routePath k applicationRef mts]
    by (simp add: registerRouteMiddleware_fst comp_def)
next
  assume single: "middleware config = Single mt"
  then show "registerRouteMiddleware c routePath config k applicationRef =
            ([fst (route_branch c routePath k applicationRef mt)],
             awaited (promise_all [snd (route_branch c routePath k applicationRef mt)]))"
    by (simp add: registerRouteMiddleware_def)
  from single show "registerRouteMiddleware c routePath config k applicationRef =
      registerRouteMiddleware c routePath (config\<lparr>middleware := Many [mt]\<rparr>) k applicationRef"
    by (simp add: registerRouteMiddleware_def)
next
  show "registerRouteMiddleware c routePath (config\<lparr>middleware := Single mt\<rparr>) k applicationRef =
       registerRouteMiddleware c routePath (config\<lparr>middleware := Many [mt]\<rparr>) k applicationRef"
    by (simp add: registerRouteMiddleware_def)
next
  show "fst (registerMiddlewareConfig c config k applicationRef) =
       concat (map (\<lambda>routePath. fst (registerRouteMiddleware c routePath config k applicationRef))
                 (forRoutes config))"
    by (simp add: registerMiddlewareConfig_def Let_def comp_def case_prod_unfold)
next
  show "fst (registerMiddleware c applicationRef) =
       concat (map (\<lambda>entry.
                 concat (map (\<lambda>config.
                           fst (registerMiddlewareConfig c config (fst entry) applicationRef))
                         (snd entry)))
               (getConfigs c))"
    by (simp add: registerMiddleware_def registerAllConfigs_def Let_def comp_def
          case_prod_unfold)
qed

theorem one_registration_per_bound_middleware_witness:
  "snd (route_branch (logger_container (logger_instance (Some (Returns (Plain (Fn 7))))))
          ''/users'' ''AppModule'' 0 logger) = Fulfilled
   \<and> length (registrations
        (fst (route_branch (logger_container (logger_instance (Some (Returns (Plain (Fn 7))))))
                ''/users'' ''AppModule'' 0 logger))) = 1
   \<and> snd (route_branch unresolved_container ''/users'' ''AppModule'' 0 logger) \<noteq> Fulfilled
   \<and> registrations (fst (route_branch unresolved_container ''/users'' ''AppModule'' 0 logger)) = []
   \<and> middleware users_config = Single logger
   \<and> registerRouteMiddleware (logger_container (logger_instance (Some (Returns (Plain (Fn 7))))))
       ''/users'' users_config ''AppModule'' 0 =
       ([[CreateExceptionsHandler 1, GetRouterMethod 0 RequestMethod_ALL, CallResolve 1,
          RouterRegister \<lparr>r_app = 0, r_method = RequestMethod_ALL\<rparr> ''/users''
            \<lparr>p_target = Plain (Fn 7), p_handler = ExceptionsHandler 1\<rparr>]],
        Fulfilled)
   \<and> middleware mixed_config = Many [logger, auth]
   \<and> registerRouteMiddleware (logger_container (logger_instance (Some (Returns (Plain (Fn 7))))))
       ''/users'' mixed_config ''AppModule'' 0 =
       ([[CreateExceptionsHandler 1, GetRouterMethod 0 RequestMethod_ALL, CallResolve 1,
          RouterRegister \<lparr>r_app = 0, r_method = RequestMethod_ALL\<rparr> ''/users''
            \<lparr>p_target = Plain (Fn 7), p_handler = ExceptionsHandler 1\<rparr>],
         []],
        RejectedAsync [RuntimeException])
   \<and> fst (registerMiddleware (logger_container (logger_instance (Some (Returns (Plain (Fn 7))))))
            0) =
       [[CreateExceptionsHandler 1, GetRouterMethod 0 RequestMethod_ALL, CallResolve 1,
         RouterRegister \<lparr>r_app = 0, r_method = RequestMethod_ALL\<rparr> ''/users''
           \<lparr>p_target = Plain (Fn 7), p_handler = ExceptionsHandler 1\<rparr>]]"
proof -
  let ?c = "logger_container (logger_instance (Some (Returns (Plain (Fn 7)))))"
  let ?trace = "[CreateExceptionsHandler 1, GetRouterMethod 0 RequestMethod_ALL, CallResolve 1,
      RouterRegister \<lparr>r_app = 0, r_method = RequestMethod_ALL\<rparr> ''/users''
        \<lparr>p_target = Plain (Fn 7), p_handler = ExceptionsHandler 1\<rparr>]"
  have rb: "route_branch ?c ''/users'' ''AppModule'' 0 logger = (?trace, Fulfilled)"
    by (simp add: route_branch_def getMiddleware_def logger_container_def logger_def
          logger_instance_def bindHandler_def bindHandlerWithProxy_def createProxy_def
          create_def routerMethodFactory_get_def)
  have ra: "route_branch ?c ''/users'' ''AppModule'' 0 auth = ([], RejectedSync RuntimeException)"
    by (simp add: route_branch_def getMiddleware_def logger_container_def auth_def)
  have f: "snd (route_branch ?c ''/users'' ''AppModule'' 0 logger) = Fulfilled"
    by (simp add: rb)
  have n: "snd (route_branch unresolved_container ''/users'' ''AppModule'' 0 logger) \<noteq> Fulfilled"
    by (simp add: route_branch_def getMiddleware_def unresolved_container_def)
  have s: "middleware users_config = Single logger"
    by (simp add: users_config_def)
  have m: "middleware mixed_config = Many [logger, auth]"
    by (simp add: mixed_config_def)
  have g: "getConfigs ?c = [(''AppModule'', [users_config])]"
    "forRoutes users_config = [''/users'']"
    by (simp_all add: getConfigs_def logger_container_def users_config_def)
  note single = one_registration_per_bound_middleware
    [where c = ?c and routePath = "''/users''" and k = "''AppModule''"
       and applicationRef = 0 and mt = logger and config = users_config]
  note many = one_registration_per_bound_middleware
    [where c = ?c and routePath = "''/users''" and k = "''AppModule''"
       and applicationRef = 0 and config = mixed_config and mts = "[logger, auth]"]
  note absent = one_registration_per_bound_middleware
    [where c = unresolved_container and routePath = "''/users''" and k = "''AppModule''"
       and applicationRef = 0 and mt = logger]
  from single f
  have "\<exists>mw target. getMiddleware ?c ''AppModule'' (mt_name logger) = Some mw
      \<and> registrations (fst (route_branch ?c ''/users'' ''AppModule'' 0 logger)) =
          [RouterRegister \<lparr>r_app = 0, r_method = RequestMethod_ALL\<rparr> ''/users''
             (createProxy target (create (w_instance mw)))]"
    by blast
  then have one: "length (registrations (fst (route_branch ?c ''/users'' ''AppModule'' 0 logger)))
      = 1"
    by auto
  from absent n
  have none: "registrations
      (fst (route_branch unresolved_container ''/users'' ''AppModule'' 0 logger)) = []"
    by blast
  from single s
  have "registerRouteMiddleware ?c ''/users'' users_config ''AppModule'' 0 =
      ([fst (route_branch ?c ''/users'' ''AppModule'' 0 logger)],
       awaited (promise_all [snd (route_branch ?c ''/users'' ''AppModule'' 0 logger)]))"
    by blast
  then have route: "registerRouteMiddleware ?c ''/users'' users_config ''AppModule'' 0 =
      ([?trace], Fulfilled)"
    by (simp add: rb promise_all_def)
  from many m
  have "registerRouteMiddleware ?c ''/users'' mixed_config ''AppModule'' 0 =
      (map (\<lambda>mt. fst (route_branch ?c ''/users'' ''AppModule'' 0 mt)) [logger, auth],
       awaited (promise_all
         (map (\<lambda>mt. snd (route_branch ?c ''/users'' ''AppModule'' 0 mt)) [logger, auth])))"
    by blast
  then have mixed: "registerRouteMiddleware ?c ''/users'' mixed_config ''AppModule'' 0 =
      ([?trace, []], RejectedAsync [RuntimeException])"
    by (simp add: rb ra promise_all_def)
  from single
  have "fst (registerMiddlewareConfig ?c users_config ''AppModule'' 0) =
      concat (map (\<lambda>routePath.
                fst (registerRouteMiddleware ?c routePath users_config ''AppModule'' 0))
              (forRoutes users_config))"
    by blast
  then have cfg: "fst (registerMiddlewareConfig ?c users_config ''AppModule'' 0) = [?trace]"
    by (simp add: g route)
  from single
  have "fst (registerMiddleware ?c 0) =
      concat (map (\<lambda>entry.
                concat (map (\<lambda>config. fst (registerMiddlewareConfig ?c config (fst entry) 0))
                        (snd entry)))
              (getConfigs ?c))"
    by blast
  then have phase: "fst (registerMiddleware ?c 0) = [?trace]"
    by (simp add: g cfg)
  from f one n none s route m mixed phase show ?thesis
    by blast
qed

subsection \<open>Request time\<close>

text \<open>
  C7. Take any proxy that \<^verbatim>\<open>bindHandler\<close> registered for an instance. If its target throws
  synchronously, or returns an awaitable that rejects, when the router invokes the proxy,
  then \<^verbatim>\<open>handle\<close> of the exception handler built for that instance is invoked exactly once,
  with the error, and no error escapes from the proxy.
\<close>

theorem registered_proxy_isolates_errors:
  assumes "RouterRegister r path' p \<in> set (fst (bindHandler inst mt applicationRef method path))"
    and "behaviour (p_target p) = ThrowsSync e \<or> behaviour (p_target p) = ReturnsRejected e"
  shows "invoke_proxy behaviour p = ([InvokeTarget (p_target p), Handle (create inst) e], None)
     \<and> filter is_handle (fst (invoke_proxy behaviour p)) = [Handle (create inst) e]
     \<and> snd (invoke_proxy behaviour p) = None"
  using assms(2) registered_proxy [OF assms(1)]
  by (auto simp: invoke_proxy_def)

theorem registered_proxy_isolates_errors_witness:
  "RouterRegister \<lparr>r_app = 0, r_method = RequestMethod_ALL\<rparr> ''/users''
       \<lparr>p_target = Plain (Fn 7), p_handler = ExceptionsHandler 1\<rparr>
     \<in> set (fst (bindHandler (logger_instance (Some (Returns (NativePromise (Settles (Fn 7))))))
                 logger 0 RequestMethod_ALL ''/users''))
   \<and> faulty_target (Plain (Fn 7)) = ThrowsSync (UserError 9)
   \<and> invoke_proxy faulty_target \<lparr>p_target = Plain (Fn 7), p_handler = ExceptionsHandler 1\<rparr> =
       ([InvokeTarget (Plain (Fn 7)), Handle (ExceptionsHandler 1) (UserError 9)], None)"
proof -
  let ?inst = "logger_instance (Some (Returns (NativePromise (Settles (Fn 7)))))"
  let ?p = "\<lparr>p_target = Plain (Fn 7), p_handler = ExceptionsHandler 1\<rparr>"
  have h1: "RouterRegister \<lparr>r_app = 0, r_method = RequestMethod_ALL\<rparr> ''/users'' ?p
     \<in> set (fst (bindHandler ?inst logger 0 RequestMethod_ALL ''/users''))"
    by (simp add: bindHandler_def bindHandlerWithProxy_def logger_instance_def create_def
          createProxy_def routerMethodFactory_get_def)
  have h2: "faulty_target (p_target ?p) = ThrowsSync (UserError 9)
      \<or> faulty_target (p_target ?p) = ReturnsRejected (UserError 9)"
    by (simp add: faulty_target_def)
  have c: "create ?inst = ExceptionsHandler 1"
    by (simp add: create_def logger_instance_def)
  show ?thesis
    using h1 h2
      registered_proxy_isolates_errors [where behaviour = faulty_target and e = "UserError 9",
        OF h1 h2]
    by (simp add: c faulty_target_def)
qed

end
